theory Spec2Isabelle
  imports Main "HOL-Library.AList"
begin

section \<open>The \<open>prisma version\<close> command (packages/cli/src/Version.ts)\<close>

text \<open>
  The command resolves four engine binaries, asks each for its version, collects a list
  of rows and renders it as an aligned text table or as a JSON object.

  Strings are \<open>string\<close>, one \<open>char\<close> per UTF-16 code unit, so the model covers the
  code units U+0000 to U+00FF. Everything the class imports from other packages
  (\<open>@prisma/sdk\<close>, \<open>@prisma/engines\<close>, \<open>@prisma/get-platform\<close>, \<open>fs\<close>, \<open>path\<close>,
  \<open>chalk\<close>, \<open>JSON\<close>, \<open>process\<close>, \<open>package.json\<close>) is a field of the record \<open>world\<close>:
  the outcome that collaborator has when the command calls it.
\<close>

subsection \<open>Data\<close>

text \<open>
  \<open>BinaryType\<close> of \<open>@prisma/sdk\<close>, imported as \<open>EngineType\<close>. The source names
  \<open>introspectionEngine\<close>, \<open>migrationEngine\<close>, \<open>prismaFmt\<close> and \<open>libqueryEngine\<close>;
  \<open>queryEngine\<close> is the other value \<open>getCliQueryEngineBinaryType\<close> can return.
\<close>

datatype EngineType =
  queryEngine | libqueryEngine | migrationEngine | introspectionEngine | prismaFmt

text \<open>\<open>interface EngineInfo\<close>; the optional \<open>fromEnvVar\<close> is an option.\<close>

record EngineInfo =
  path :: string
  version :: string
  fromEnvVar :: "string option"

text \<open>A thrown JavaScript \<open>Error\<close> (a rejected promise), with its message.\<close>

datatype error = Error string

text \<open>What the command reads of a generator and of the parsed configuration.\<close>

record generator =
  previewFeatures :: "string list"

record config =
  generators :: "generator list"

text \<open>The flags \<open>arg\<close> extracts from \<open>argv\<close> that \<open>parse\<close> reads.\<close>

record args =
  help_flag :: bool
  json_flag :: bool

text \<open>
  The entries of \<open>package.json\<close> that \<open>parse\<close> reads: \<open>name\<close>, \<open>version\<close>,
  \<open>dependencies['@prisma/engines']\<close> and \<open>devDependencies['@prisma/studio-server']\<close>.
\<close>

record packageJson =
  pkg_name :: string
  pkg_version :: string
  dep_engines :: string
  dev_studio_server :: string

text \<open>The value \<open>parse\<close> resolves to: a string, or a \<open>HelpError\<close> object.\<close>

datatype parse_result = Text string | HelpError string

subsection \<open>Calls to collaborators\<close>

text \<open>
  Each call the command makes to the file system, to a child process or to another
  package is recorded, in order, so that a claim about a call that is not made can
  be stated.
\<close>

datatype call =
    LoadEnvFile
  | GetPlatform
  | ExistsSync string
  | ResolveBinary EngineType
  | GetVersion string EngineType
  | GetInstalledPrismaClientVersion
  | GetSchemaPath
  | GetSchema
  | GetConfig string

text \<open>
  An \<open>async\<close> computation: the calls it made, and the error it rejected with
  (\<open>Inl\<close>) or the value it resolved to (\<open>Inr\<close>).
\<close>

type_synonym 'a promise = "call list \<times> (error + 'a)"

abbreviation calls :: "'a promise \<Rightarrow> call list" where
  "calls m \<equiv> fst m"

abbreviation result :: "'a promise \<Rightarrow> error + 'a" where
  "result m \<equiv> snd m"

definition returns :: "'a \<Rightarrow> 'a promise" where
  "returns x = ([], Inr x)"

definition external :: "call \<Rightarrow> error + 'a \<Rightarrow> 'a promise" where
  "external c r = ([c], r)"

text \<open>\<open>const x = await m; f x\<close>: a rejection of \<open>m\<close> skips the rest.\<close>

definition await :: "'a promise \<Rightarrow> ('a \<Rightarrow> 'b promise) \<Rightarrow> 'b promise" where
  "await m f =
     (case result m of
        Inl e \<Rightarrow> (calls m, Inl e)
      | Inr x \<Rightarrow> (calls m @ calls (f x), result (f x)))"

text \<open>\<open>try { m } catch (e) { h e }\<close>.\<close>

definition try_catch :: "'a promise \<Rightarrow> (error \<Rightarrow> 'a promise) \<Rightarrow> 'a promise" where
  "try_catch m h =
     (case result m of
        Inl e \<Rightarrow> (calls m @ calls (h e), result (h e))
      | Inr x \<Rightarrow> m)"

subsection \<open>The collaborators\<close>

record world =
  env :: "string \<Rightarrow> string option"
  existsSync :: "string \<Rightarrow> bool"
  cwd :: string
  relative :: "string \<Rightarrow> string \<Rightarrow> string"
  engineEnvVarMap :: "EngineType \<Rightarrow> string"
  resolveBinary :: "EngineType \<Rightarrow> error + string"
  getVersion :: "string \<Rightarrow> EngineType \<Rightarrow> error + string"
  getPlatform :: "error + string"
  getCliQueryEngineType :: EngineType
  getInstalledPrismaClientVersion :: "error + string option"
  getSchemaPath :: "error + string option"
  getSchema :: "error + string"
  getConfig :: "string \<Rightarrow> error + config"
  loadEnvFile :: "error + (string \<Rightarrow> string option)"
  arg :: "string list \<Rightarrow> string + args"
  pkg :: packageJson
  help_text :: string
  bold_red :: "string \<Rightarrow> string"
  JSON_stringify :: "(string \<times> string) list \<Rightarrow> string"

subsection \<open>\<open>resolveEngine\<close> (lines 134-145)\<close>

text \<open>
  \<open>pathFromEnv && fs.existsSync(pathFromEnv)\<close>: an undefined or empty \<open>pathFromEnv\<close>
  is falsy, and then \<open>existsSync\<close> is not called.
\<close>

definition resolveEngine :: "world \<Rightarrow> EngineType \<Rightarrow> EngineInfo promise" where
  "resolveEngine w engineName =
     (let envVar = engineEnvVarMap w engineName;
          pathFromEnv = env w envVar;
          fallback =
            await (external (ResolveBinary engineName) (resolveBinary w engineName))
              (\<lambda>enginePath.
            await (external (GetVersion enginePath engineName)
                     (getVersion w enginePath engineName))
              (\<lambda>version.
            returns \<lparr>path = enginePath, version = version, fromEnvVar = None\<rparr>))
      in case pathFromEnv of
           None \<Rightarrow> fallback
         | Some p \<Rightarrow>
             if p = [] then fallback
             else
               await (external (ExistsSync p) (Inr (existsSync w p)))
                 (\<lambda>found.
                    if found then
                      await (external (GetVersion p engineName) (getVersion w p engineName))
                        (\<lambda>version.
                      returns \<lparr>path = p, version = version, fromEnvVar = Some envVar\<rparr>)
                    else fallback))"

subsection \<open>\<open>printEngineInfo\<close> (lines 129-132)\<close>

text \<open>\<open>fromEnvVar ? ... : ''\<close>: an undefined or empty \<open>fromEnvVar\<close> is falsy.\<close>

definition printEngineInfo :: "world \<Rightarrow> EngineInfo \<Rightarrow> string" where
  "printEngineInfo w info =
     (let resolved =
            (case fromEnvVar info of
               None \<Rightarrow> []
             | Some v \<Rightarrow> if v = [] then [] else '', resolved by '' @ v)
      in version info @ '' (at '' @ relative w (cwd w) (path info) @ resolved @ '')'')"

subsection \<open>\<open>getFeatureFlags\<close> (lines 109-127)\<close>

text \<open>
  \<open>!schemaPath\<close> holds for \<open>null\<close> and for the empty string. The body of \<open>try\<close>
  either returns a list (\<open>Some\<close>) or falls through (\<open>None\<close>); the empty \<open>catch\<close> falls
  through as well, to the final \<open>return []\<close>.
\<close>

definition getFeatureFlags :: "world \<Rightarrow> string option \<Rightarrow> string list promise" where
  "getFeatureFlags w schemaPath =
     (case schemaPath of
        None \<Rightarrow> returns []
      | Some sp \<Rightarrow>
          if sp = [] then returns []
          else
            await
              (try_catch
                 (await (external GetSchema (getSchema w))
                    (\<lambda>datamodel.
                  await (external (GetConfig datamodel) (getConfig w datamodel))
                    (\<lambda>config.
                  case find (\<lambda>g. length (previewFeatures g) > 0) (generators config) of
                    Some generator \<Rightarrow> returns (Some (previewFeatures generator))
                  | None \<Rightarrow> returns None)))
                 (\<lambda>e. returns None))
              (\<lambda>returned.
                 case returned of
                   Some flags \<Rightarrow> returns flags
                 | None \<Rightarrow> returns []))"

subsection \<open>\<open>slugify\<close> (lines 168-170)\<close>

text \<open>
  \<open>String.prototype.toLowerCase\<close> on the code units below U+0100: the letters A-Z and
  the upper-case letters U+00C0 to U+00DE, without the multiplication sign U+00D7,
  move up by 32.
\<close>

definition toLowerCase_char :: "char \<Rightarrow> char" where
  "toLowerCase_char c =
     (let n = (of_char c :: nat)
      in if (65 \<le> n \<and> n \<le> 90) \<or> (192 \<le> n \<and> n \<le> 222 \<and> n \<noteq> 215)
         then char_of (n + 32) else c)"

definition toLowerCase :: "string \<Rightarrow> string" where
  "toLowerCase s = map toLowerCase_char s"

text \<open>
  The class \<open>\s\<close> of a regular expression, on the code units below U+0100: tab, line
  feed, vertical tab, form feed, carriage return, space and the no-break space.
\<close>

definition is_space :: "char \<Rightarrow> bool" where
  "is_space c = ((of_char c :: nat) \<in> {9, 10, 11, 12, 13, 32, 160})"

text \<open>\<open>replace(/\s+/g, '-')\<close>: every maximal run of white space becomes one hyphen.\<close>

function replace_spaces :: "string \<Rightarrow> string" where
  "replace_spaces [] = []"
| "replace_spaces (c # cs) =
     (if is_space c then CHR ''-'' # replace_spaces (dropWhile is_space cs)
      else c # replace_spaces cs)"
  by pat_completeness auto
termination
  by (relation "measure length") (auto simp: length_dropWhile_le less_Suc_eq_le)

definition slugify :: "string \<Rightarrow> string" where
  "slugify str = replace_spaces (toLowerCase str)"

subsection \<open>\<open>printTable\<close> (lines 147-157)\<close>

text \<open>\<open>Array.prototype.join\<close> on strings.\<close>

fun join :: "string \<Rightarrow> string list \<Rightarrow> string" where
  "join sep [] = []"
| "join sep [x] = x"
| "join sep (x # y # ys) = x @ sep @ join sep (y # ys)"

text \<open>\<open>String.prototype.padEnd\<close> with the default filler, a space.\<close>

definition padEnd :: "string \<Rightarrow> nat \<Rightarrow> string" where
  "padEnd s n = s @ replicate (n - length s) CHR '' ''"

text \<open>
  The object \<open>acc\<close> is the list of its own properties in insertion order.
  \<open>acc[key] = value\<close> replaces the value of a property that is there and appends a new
  one otherwise. The key \<open>__proto__\<close> is the accessor of \<open>Object.prototype\<close>: its
  setter ignores a string, and the object gets no property.
\<close>

definition assign :: "(string \<times> string) list \<Rightarrow> string \<Rightarrow> string \<Rightarrow> (string \<times> string) list" where
  "assign acc key v = (if key = ''__proto__'' then acc else AList.update key v acc)"

text \<open>
  A row is an array \<open>[label, value]\<close>, the only shape \<open>parse\<close> builds and the one both
  branches destructure: a pair. \<open>JSON.stringify\<close> is given the object and is a
  collaborator.
\<close>

text \<open>The \<open>reduce\<close> of lines 149 to 152, from the empty object.\<close>

definition reduce_rows :: "(string \<times> string) list \<Rightarrow> (string \<times> string) list" where
  "reduce_rows rows = foldl (\<lambda>acc (name, v). assign acc (slugify name) v) [] rows"

definition printTable :: "world \<Rightarrow> (string \<times> string) list \<Rightarrow> bool \<Rightarrow> string" where
  "printTable w rows json =
     (if json then
        (let object = reduce_rows rows
         in JSON_stringify w object)
      else
        (let maxPad = foldl (\<lambda>acc curr. max acc (length (fst curr))) 0 rows
         in join ''\<newline>'' (map (\<lambda>(left, right). padEnd left maxPad @ '' : '' @ right) rows)))"

subsection \<open>\<open>help\<close> (lines 159-165)\<close>

text \<open>The method \<open>help\<close>; \<open>if (error)\<close> is false for an empty message too.\<close>

definition help_text_or_error :: "world \<Rightarrow> string option \<Rightarrow> parse_result" where
  "help_text_or_error w err =
     (case err of
        None \<Rightarrow> Text (help_text w)
      | Some e \<Rightarrow>
          if e = [] then Text (help_text w)
          else HelpError (''\<newline>'' @ bold_red w ''!'' @ '' '' @ e @ ''\<newline>'' @ help_text w))"

subsection \<open>\<open>parse\<close> (lines 54-107)\<close>

text \<open>\<open>String.prototype.split\<close> on a one-character separator, and \<open>pop\<close> of its result.\<close>

fun split :: "char \<Rightarrow> string \<Rightarrow> string list" where
  "split sep [] = [[]]"
| "split sep (c # cs) =
     (if c = sep then [] # split sep cs
      else (case split sep cs of
              [] \<Rightarrow> [[c]]
            | seg # segs \<Rightarrow> (c # seg) # segs))"

definition pop :: "string list \<Rightarrow> string" where
  "pop segs = last segs"

text \<open>
  Lines 74 to 104, from \<open>getPlatform\<close> to the last \<open>rows.push\<close>: the rows that
  \<open>printTable\<close> is given. The engines are resolved in the order of the source, which is
  not the order of their rows.
\<close>

definition parse_rows :: "world \<Rightarrow> (string \<times> string) list promise" where
  "parse_rows w =
     await (external GetPlatform (getPlatform w)) (\<lambda>platform.
     let cliQueryEngineType = getCliQueryEngineType w in
     await (resolveEngine w introspectionEngine) (\<lambda>introspectionEngine'.
     await (resolveEngine w migrationEngine) (\<lambda>migrationEngine'.
     await (resolveEngine w cliQueryEngineType) (\<lambda>queryEngine'.
     await (resolveEngine w prismaFmt) (\<lambda>fmtEngine.
     await (external GetInstalledPrismaClientVersion (getInstalledPrismaClientVersion w))
       (\<lambda>prismaClientVersion.
     let rows =
       [(pkg_name (pkg w), pkg_version (pkg w)),
        (''@prisma/client'',
           (case prismaClientVersion of Some v \<Rightarrow> v | None \<Rightarrow> ''Not found'')),
        (''Current platform'', platform),
        (''Query Engine'' @
           (if cliQueryEngineType = libqueryEngine then '' (Node-API)'' else '' (Binary)''),
         printEngineInfo w queryEngine'),
        (''Migration Engine'', printEngineInfo w migrationEngine'),
        (''Introspection Engine'', printEngineInfo w introspectionEngine'),
        (''Format Engine'', printEngineInfo w fmtEngine),
        (''Default Engines Hash'', pop (split CHR ''.'' (dep_engines (pkg w)))),
        (''Studio'', dev_studio_server (pkg w))]
     in
     await (external GetSchemaPath (getSchemaPath w)) (\<lambda>schemaPath.
     await (getFeatureFlags w schemaPath) (\<lambda>featureFlags.
     returns
       (if length featureFlags > 0
        then rows @ [(''Preview Features'', join '', '' featureFlags)]
        else rows)))))))))"

text \<open>
  \<open>loadEnvFile\<close> changes \<open>process.env\<close> before the engines are resolved: the rows are
  computed in the world with the environment it leaves.
\<close>

definition parse :: "world \<Rightarrow> string list \<Rightarrow> parse_result promise" where
  "parse w argv =
     (case arg w argv of
        Inl message \<Rightarrow> returns (help_text_or_error w (Some message))
      | Inr a \<Rightarrow>
          if help_flag a then returns (help_text_or_error w None)
          else
            await (external LoadEnvFile (loadEnvFile w)) (\<lambda>env'.
            await (parse_rows (w\<lparr>env := env'\<rparr>)) (\<lambda>rows.
            returns (Text (printTable w rows (json_flag a))))))"

section \<open>Vocabulary of the properties\<close>

text \<open>Asking the binary at \<open>p\<close> for its version, and tagging the answer with \<open>tag\<close>.\<close>

definition probe :: "world \<Rightarrow> EngineType \<Rightarrow> string \<Rightarrow> string option \<Rightarrow> error + EngineInfo" where
  "probe w role p tag =
     (case getVersion w p role of
        Inl e \<Rightarrow> Inl e
      | Inr v \<Rightarrow> Inr \<lparr>path = p, version = v, fromEnvVar = tag\<rparr>)"

text \<open>The path of the default resolver, probed and untagged.\<close>

definition default_engine :: "world \<Rightarrow> EngineType \<Rightarrow> error + EngineInfo" where
  "default_engine w role =
     (case resolveBinary w role of
        Inl e \<Rightarrow> Inl e
      | Inr d \<Rightarrow> probe w role d None)"

text \<open>The path the variable of a role names, when the variable is set and the path exists.\<close>

definition override_of :: "world \<Rightarrow> EngineType \<Rightarrow> string option" where
  "override_of w role =
     (case env w (engineEnvVarMap w role) of
        None \<Rightarrow> None
      | Some p \<Rightarrow> if existsSync w p then Some p else None)"

text \<open>The four roles \<open>parse\<close> resolves, in the order it resolves them.\<close>

definition resolved_roles :: "world \<Rightarrow> EngineType list" where
  "resolved_roles w =
     [introspectionEngine, migrationEngine, getCliQueryEngineType w, prismaFmt]"

text \<open>The nine rows of the array literal of lines 84 to 97.\<close>

definition fixed_rows ::
  "world \<Rightarrow> string \<Rightarrow> string option \<Rightarrow> EngineInfo \<Rightarrow> EngineInfo \<Rightarrow> EngineInfo \<Rightarrow> EngineInfo
     \<Rightarrow> (string \<times> string) list" where
  "fixed_rows w platform clientVersion qe me ie fe =
     [(pkg_name (pkg w), pkg_version (pkg w)),
      (''@prisma/client'', (case clientVersion of Some v \<Rightarrow> v | None \<Rightarrow> ''Not found'')),
      (''Current platform'', platform),
      (''Query Engine'' @
         (if getCliQueryEngineType w = libqueryEngine then '' (Node-API)'' else '' (Binary)''),
       printEngineInfo w qe),
      (''Migration Engine'', printEngineInfo w me),
      (''Introspection Engine'', printEngineInfo w ie),
      (''Format Engine'', printEngineInfo w fe),
      (''Default Engines Hash'', pop (split CHR ''.'' (dep_engines (pkg w)))),
      (''Studio'', dev_studio_server (pkg w))]"

definition flag_rows :: "string list \<Rightarrow> (string \<times> string) list" where
  "flag_rows flags = (if flags = [] then [] else [(''Preview Features'', join '', '' flags)])"

text \<open>
  A schema path is found, the configuration loads, and one of its generators has a
  preview feature.
\<close>

definition declares_preview_features :: "world \<Rightarrow> bool" where
  "declares_preview_features w =
     (case getSchemaPath w of
        Inr (Some sp) \<Rightarrow>
          sp \<noteq> [] \<and>
          (case getSchema w of
             Inr datamodel \<Rightarrow>
               (case getConfig w datamodel of
                  Inr c \<Rightarrow> list_ex (\<lambda>g. previewFeatures g \<noteq> []) (generators c)
                | Inl e \<Rightarrow> False)
           | Inl e \<Rightarrow> False)
      | _ \<Rightarrow> False)"

text \<open>The width of the longest label of a row set.\<close>

definition longest_label :: "(string \<times> string) list \<Rightarrow> nat" where
  "longest_label rows = Max (set (0 # map (\<lambda>row. length (fst row)) rows))"

text \<open>
  The text table with every label padded on its left, the spaces before the label, as
  \<open>padStart\<close> would do it.
\<close>

definition left_padded_table :: "(string \<times> string) list \<Rightarrow> string" where
  "left_padded_table rows =
     join ''\<newline>''
       (map (\<lambda>(label, v).
               replicate (longest_label rows - length label) CHR '' '' @ label @ '' : '' @ v)
          rows)"

section \<open>Example worlds\<close>

definition demo_env :: "string \<Rightarrow> string option" where
  "demo_env =
     [''PRISMA_QUERY_ENGINE_BINARY'' \<mapsto> ''/opt/custom/qe'',
      ''PRISMA_FMT_BINARY'' \<mapsto> ''/missing/fmt'',
      ''PRISMA_MIGRATION_ENGINE_BINARY'' \<mapsto> []]"

definition demo_config :: config where
  "demo_config =
     \<lparr>generators =
        [\<lparr>previewFeatures = []\<rparr>,
         \<lparr>previewFeatures = [''a'', ''b'']\<rparr>,
         \<lparr>previewFeatures = [''c'']\<rparr>]\<rparr>"

text \<open>
  The query engine is overridden by a variable that names an existing file; the variable
  of the format engine names a missing file; the variable of the migration engine is
  set to the empty string.
\<close>

definition demo_world :: world where
  "demo_world =
     \<lparr>env = demo_env,
      existsSync = (\<lambda>p. p \<in> set [''/opt/custom/qe'', ''/usr/local/bin/migration-engine'']),
      cwd = ''/usr/local/bin'',
      relative =
        (\<lambda>base target.
           if take (Suc (length base)) target = base @ ''/''
           then drop (Suc (length base)) target else target),
      engineEnvVarMap =
        (\<lambda>r. case r of
           queryEngine \<Rightarrow> ''PRISMA_QUERY_ENGINE_BINARY''
         | libqueryEngine \<Rightarrow> ''PRISMA_QUERY_ENGINE_LIBRARY''
         | migrationEngine \<Rightarrow> ''PRISMA_MIGRATION_ENGINE_BINARY''
         | introspectionEngine \<Rightarrow> ''PRISMA_INTROSPECTION_ENGINE_BINARY''
         | prismaFmt \<Rightarrow> ''PRISMA_FMT_BINARY''),
      resolveBinary =
        (\<lambda>r. case r of
           queryEngine \<Rightarrow> Inr ''/usr/local/bin/query-engine''
         | libqueryEngine \<Rightarrow> Inr ''/usr/local/bin/libquery_engine.so.node''
         | migrationEngine \<Rightarrow> Inr ''/usr/local/bin/migration-engine''
         | introspectionEngine \<Rightarrow> Inr ''/usr/local/bin/introspection-engine''
         | prismaFmt \<Rightarrow> Inr ''/usr/local/bin/prisma-fmt''),
      getVersion = (\<lambda>p r. if p = ''/opt/custom/qe'' then Inr ''3.1.0'' else Inr ''4.0.0''),
      getPlatform = Inr ''debian-openssl-1.1.x'',
      getCliQueryEngineType = queryEngine,
      getInstalledPrismaClientVersion = Inr None,
      getSchemaPath = Inr (Some ''prisma/schema.prisma''),
      getSchema = Inr ''generator client {}'',
      getConfig = (\<lambda>datamodel. Inr demo_config),
      loadEnvFile = Inr demo_env,
      arg =
        (\<lambda>argv.
           if argv = [] then Inr \<lparr>help_flag = False, json_flag = False\<rparr>
           else if argv = [''--json''] then Inr \<lparr>help_flag = False, json_flag = True\<rparr>
           else if argv = [''--help''] then Inr \<lparr>help_flag = True, json_flag = False\<rparr>
           else Inl ''unknown or unexpected option''),
      pkg =
        \<lparr>pkg_name = ''prisma'', pkg_version = ''3.1.0'',
         dep_engines = ''3.1.0-24.c22652b7e418506fab23052d569b85d3aec4883f'',
         dev_studio_server = ''0.423.0''\<rparr>,
      help_text = ''Print current version of Prisma components'',
      bold_red = (\<lambda>s. s),
      JSON_stringify = (\<lambda>object. concat (map (\<lambda>(k, v). k @ ''='' @ v @ '';'') object))\<rparr>"

text \<open>The rows of \<open>demo_world\<close>.\<close>

definition demo_rows :: "(string \<times> string) list" where
  "demo_rows =
     [(''prisma'', ''3.1.0''),
      (''@prisma/client'', ''Not found''),
      (''Current platform'', ''debian-openssl-1.1.x''),
      (''Query Engine (Binary)'',
       ''3.1.0 (at /opt/custom/qe, resolved by PRISMA_QUERY_ENGINE_BINARY)''),
      (''Migration Engine'', ''4.0.0 (at migration-engine)''),
      (''Introspection Engine'', ''4.0.0 (at introspection-engine)''),
      (''Format Engine'', ''4.0.0 (at prisma-fmt)''),
      (''Default Engines Hash'', ''c22652b7e418506fab23052d569b85d3aec4883f''),
      (''Studio'', ''0.423.0''),
      (''Preview Features'', ''a, b'')]"

text \<open>The rows of \<open>demo_world\<close> without the last one.\<close>

definition demo_fixed_rows :: "(string \<times> string) list" where
  "demo_fixed_rows =
     [(''prisma'', ''3.1.0''),
      (''@prisma/client'', ''Not found''),
      (''Current platform'', ''debian-openssl-1.1.x''),
      (''Query Engine (Binary)'',
       ''3.1.0 (at /opt/custom/qe, resolved by PRISMA_QUERY_ENGINE_BINARY)''),
      (''Migration Engine'', ''4.0.0 (at migration-engine)''),
      (''Introspection Engine'', ''4.0.0 (at introspection-engine)''),
      (''Format Engine'', ''4.0.0 (at prisma-fmt)''),
      (''Default Engines Hash'', ''c22652b7e418506fab23052d569b85d3aec4883f''),
      (''Studio'', ''0.423.0'')]"

text \<open>No schema file is found.\<close>

definition no_config_world :: world where
  "no_config_world = demo_world\<lparr>getSchemaPath := Inr None\<rparr>"

text \<open>The text tables of \<open>demo_world\<close> and of \<open>no_config_world\<close>.\<close>

definition demo_fixed_table :: string where
  "demo_fixed_table =
     ''prisma                : 3.1.0\<newline>@prisma/client        : Not found\<newline>Current platform      : debian-openssl-1.1.x\<newline>Query Engine (Binary) : 3.1.0 (at /opt/custom/qe, resolved by PRISMA_QUERY_ENGINE_BINARY)\<newline>Migration Engine      : 4.0.0 (at migration-engine)\<newline>Introspection Engine  : 4.0.0 (at introspection-engine)\<newline>Format Engine         : 4.0.0 (at prisma-fmt)\<newline>Default Engines Hash  : c22652b7e418506fab23052d569b85d3aec4883f\<newline>Studio                : 0.423.0''"

definition demo_table :: string where
  "demo_table = demo_fixed_table @ ''\<newline>Preview Features      : a, b''"

text \<open>The object \<open>demo_world\<close> gives to \<open>JSON.stringify\<close>.\<close>

definition demo_object :: "(string \<times> string) list" where
  "demo_object =
     [(''prisma'', ''3.1.0''),
      (''@prisma/client'', ''Not found''),
      (''current-platform'', ''debian-openssl-1.1.x''),
      (''query-engine-(binary)'',
       ''3.1.0 (at /opt/custom/qe, resolved by PRISMA_QUERY_ENGINE_BINARY)''),
      (''migration-engine'', ''4.0.0 (at migration-engine)''),
      (''introspection-engine'', ''4.0.0 (at introspection-engine)''),
      (''format-engine'', ''4.0.0 (at prisma-fmt)''),
      (''default-engines-hash'', ''c22652b7e418506fab23052d569b85d3aec4883f''),
      (''studio'', ''0.423.0''),
      (''preview-features'', ''a, b'')]"

text \<open>The migration engine cannot be run.\<close>

definition broken_world :: world where
  "broken_world =
     demo_world
       \<lparr>getVersion :=
          (\<lambda>p r. if r = migrationEngine then Inl (Error ''spawn ENOENT'')
                  else getVersion demo_world p r)\<rparr>"

text \<open>The schema cannot be read.\<close>

definition no_schema_world :: world where
  "no_schema_world = demo_world\<lparr>getSchema := Inl (Error ''ENOENT'')\<rparr>"

section \<open>Promises\<close>

lemma result_returns [simp]: "result (returns x) = Inr x"
  by (simp add: returns_def)

lemma calls_returns [simp]: "calls (returns x) = []"
  by (simp add: returns_def)

lemma result_external [simp]: "result (external c r) = r"
  by (simp add: external_def)

lemma calls_external [simp]: "calls (external c r) = [c]"
  by (simp add: external_def)

lemma result_await:
  "result (await m f) = (case result m of Inl e \<Rightarrow> Inl e | Inr x \<Rightarrow> result (f x))"
  by (simp add: await_def split: sum.splits)

lemma calls_await:
  "calls (await m f) = calls m @ (case result m of Inl e \<Rightarrow> [] | Inr x \<Rightarrow> calls (f x))"
  by (simp add: await_def split: sum.splits)

lemma result_await_Inr_iff:
  "result (await m f) = Inr y \<longleftrightarrow> (\<exists>x. result m = Inr x \<and> result (f x) = Inr y)"
  by (simp add: result_await split: sum.splits)

lemma result_try_catch:
  "result (try_catch m h) = (case result m of Inl e \<Rightarrow> result (h e) | Inr x \<Rightarrow> Inr x)"
  by (simp add: try_catch_def split: sum.splits)

section \<open>The locator\<close>

lemma result_resolveEngine:
  "result (resolveEngine w role) =
     (case env w (engineEnvVarMap w role) of
        None \<Rightarrow> default_engine w role
      | Some p \<Rightarrow>
          if p \<noteq> [] \<and> existsSync w p then probe w role p (Some (engineEnvVarMap w role))
          else default_engine w role)"
  by (simp add: resolveEngine_def Let_def result_await default_engine_def probe_def
      split: option.splits sum.splits)

lemma resolveEngine_probe_fails:
  assumes "GetVersion p role \<in> set (calls (resolveEngine w role))"
    and "getVersion w p role = Inl e"
  shows "result (resolveEngine w role) = Inl e"
  using assms
  by (auto simp add: resolveEngine_def Let_def calls_await result_await
      split: option.splits sum.splits if_splits)

text \<open>
  C1. In a file system where the empty path does not exist (\<open>fs.existsSync('')\<close> is
  false), \<open>resolveEngine\<close> probes and returns the path the variable of the role names,
  tagged with the name of the variable, exactly when the variable is set and the path
  exists; otherwise it probes and returns the path of the default resolver, untagged.
  A failure of the default resolver or of the probe is the result in both cases.
\<close>

theorem resolveEngine_override_or_default:
  assumes "\<not> existsSync w []"
  shows "result (resolveEngine w role) =
           (case override_of w role of
              Some p \<Rightarrow> probe w role p (Some (engineEnvVarMap w role))
            | None \<Rightarrow> default_engine w role)
         \<and> (\<forall>info. result (resolveEngine w role) = Inr info \<longrightarrow>
               (override_of w role = Some (path info) \<and>
                fromEnvVar info = Some (engineEnvVarMap w role))
               \<or> (override_of w role = None \<and>
                   resolveBinary w role = Inr (path info) \<and> fromEnvVar info = None))"
proof -
  have r: "result (resolveEngine w role) =
           (case override_of w role of
              Some p \<Rightarrow> probe w role p (Some (engineEnvVarMap w role))
            | None \<Rightarrow> default_engine w role)"
    using assms by (auto simp add: result_resolveEngine override_of_def split: option.splits)
  show ?thesis
    unfolding r
    by (auto simp add: probe_def default_engine_def split: option.splits sum.splits)
qed

theorem resolveEngine_override_or_default_witness:
  "\<not> existsSync demo_world [] \<and>
   override_of demo_world queryEngine = Some ''/opt/custom/qe'' \<and>
   result (resolveEngine demo_world queryEngine) =
     Inr \<lparr>path = ''/opt/custom/qe'', version = ''3.1.0'',
          fromEnvVar = Some ''PRISMA_QUERY_ENGINE_BINARY''\<rparr> \<and>
   override_of demo_world prismaFmt = None \<and>
   result (resolveEngine demo_world prismaFmt) =
     Inr \<lparr>path = ''/usr/local/bin/prisma-fmt'', version = ''4.0.0'', fromEnvVar = None\<rparr>"
proof -
  have h: "\<not> existsSync demo_world []"
    by (simp add: demo_world_def)
  show ?thesis
    using resolveEngine_override_or_default [OF h, of queryEngine]
      resolveEngine_override_or_default [OF h, of prismaFmt]
    by (simp add: demo_world_def demo_env_def override_of_def probe_def default_engine_def)
qed

text \<open>
  C2. For an engine that \<open>resolveEngine\<close> returned, with a variable name that is not
  empty, the displayed value is the version, then the path relative to the current
  working directory, as \<open>"<version> (at <relativePath>, resolved by <VAR>)"\<close> when the
  engine carries the variable of an override and as \<open>"<version> (at <relativePath>)"\<close>
  when it carries none.
\<close>

theorem printEngineInfo_of_resolved:
  assumes "result (resolveEngine w role) = Inr info"
    and "engineEnvVarMap w role \<noteq> []"
  shows "printEngineInfo w info =
           (case fromEnvVar info of
              Some var \<Rightarrow>
                version info @ '' (at '' @ relative w (cwd w) (path info) @
                  '', resolved by '' @ var @ '')''
            | None \<Rightarrow> version info @ '' (at '' @ relative w (cwd w) (path info) @ '')'')"
  using assms
  by (auto simp add: result_resolveEngine printEngineInfo_def probe_def default_engine_def
      split: option.splits sum.splits if_splits)

theorem printEngineInfo_of_resolved_witness:
  "result (resolveEngine demo_world queryEngine) =
     Inr \<lparr>path = ''/opt/custom/qe'', version = ''3.1.0'',
          fromEnvVar = Some ''PRISMA_QUERY_ENGINE_BINARY''\<rparr> \<and>
   engineEnvVarMap demo_world queryEngine \<noteq> [] \<and>
   printEngineInfo demo_world
     \<lparr>path = ''/opt/custom/qe'', version = ''3.1.0'',
      fromEnvVar = Some ''PRISMA_QUERY_ENGINE_BINARY''\<rparr> =
     ''3.1.0 (at /opt/custom/qe, resolved by PRISMA_QUERY_ENGINE_BINARY)''"
proof -
  have r: "result (resolveEngine demo_world queryEngine) =
     Inr \<lparr>path = ''/opt/custom/qe'', version = ''3.1.0'',
          fromEnvVar = Some ''PRISMA_QUERY_ENGINE_BINARY''\<rparr>"
    by (simp add: result_resolveEngine demo_world_def demo_env_def probe_def)
  have v: "engineEnvVarMap demo_world queryEngine \<noteq> []"
    by (simp add: demo_world_def)
  show ?thesis
    using r v printEngineInfo_of_resolved [OF r v]
    by (simp add: demo_world_def)
qed

text \<open>
  C10. When the variable of a role is set to the empty string, \<open>resolveEngine\<close> does
  what it does when the variable is unset: it makes the same calls and returns the same
  result, no call of \<open>existsSync\<close> is among them, and the result is the path of the
  default resolver, probed and untagged.
\<close>

theorem resolveEngine_empty_override:
  assumes "env w (engineEnvVarMap w role) = Some []"
  shows "resolveEngine w role =
           resolveEngine (w\<lparr>env := (env w)(engineEnvVarMap w role := None)\<rparr>) role
         \<and> (\<forall>p. ExistsSync p \<notin> set (calls (resolveEngine w role)))
         \<and> result (resolveEngine w role) = default_engine w role"
  using assms
  by (auto simp add: resolveEngine_def Let_def calls_await result_await default_engine_def
      probe_def split: sum.splits)

theorem resolveEngine_empty_override_witness:
  "env demo_world (engineEnvVarMap demo_world migrationEngine) = Some [] \<and>
   resolveEngine demo_world migrationEngine =
     ([ResolveBinary migrationEngine,
       GetVersion ''/usr/local/bin/migration-engine'' migrationEngine],
      Inr \<lparr>path = ''/usr/local/bin/migration-engine'', version = ''4.0.0'',
           fromEnvVar = None\<rparr>)"
proof -
  have h: "env demo_world (engineEnvVarMap demo_world migrationEngine) = Some []"
    by (simp add: demo_world_def demo_env_def)
  show ?thesis
    using h resolveEngine_empty_override [OF h]
    by (simp add: demo_world_def demo_env_def default_engine_def probe_def resolveEngine_def
        await_def external_def returns_def)
qed

section \<open>The feature flags\<close>

lemma find_first: "\<forall>b \<in> set before. \<not> P b \<Longrightarrow> P g \<Longrightarrow> find P (before @ g # after) = Some g"
  by (induction before) auto

lemma result_getFeatureFlags:
  "result (getFeatureFlags w schemaPath) =
     Inr (case schemaPath of
            None \<Rightarrow> []
          | Some sp \<Rightarrow>
              if sp = [] then []
              else
                (case getSchema w of
                   Inl e \<Rightarrow> []
                 | Inr datamodel \<Rightarrow>
                     (case getConfig w datamodel of
                        Inl e \<Rightarrow> []
                      | Inr c \<Rightarrow>
                          (case find (\<lambda>g. previewFeatures g \<noteq> []) (generators c) of
                             Some g \<Rightarrow> previewFeatures g
                           | None \<Rightarrow> []))))"
  by (simp add: getFeatureFlags_def result_await result_try_catch
      split: option.splits sum.splits)

lemma first_flags_nonempty:
  "(case find (\<lambda>g. previewFeatures g \<noteq> []) gs of
      Some g \<Rightarrow> previewFeatures g
    | None \<Rightarrow> []) \<noteq> [] \<longleftrightarrow> list_ex (\<lambda>g. previewFeatures g \<noteq> []) gs"
  by (induction gs) simp_all

lemma getFeatureFlags_nonempty_iff:
  assumes "getSchemaPath w = Inr sp" and "result (getFeatureFlags w sp) = Inr flags"
  shows "flags \<noteq> [] \<longleftrightarrow> declares_preview_features w"
proof (cases sp)
  case None
  with assms show ?thesis
    by (simp add: result_getFeatureFlags declares_preview_features_def)
next
  case (Some p)
  show ?thesis
  proof (cases "p = []")
    case True
    with Some assms show ?thesis
      by (simp add: result_getFeatureFlags declares_preview_features_def)
  next
    case False
    show ?thesis
    proof (cases "getSchema w")
      case (Inl e)
      with False Some assms show ?thesis
        by (simp add: result_getFeatureFlags declares_preview_features_def)
    next
      case (Inr datamodel)
      show ?thesis
      proof (cases "getConfig w datamodel")
        case (Inl e)
        with Inr False Some assms show ?thesis
          by (simp add: result_getFeatureFlags declares_preview_features_def)
      next
        case c: (Inr c)
        have "flags =
                (case find (\<lambda>g. previewFeatures g \<noteq> []) (generators c) of
                   Some g \<Rightarrow> previewFeatures g
                 | None \<Rightarrow> [])"
          using c Inr False Some assms(2) by (simp add: result_getFeatureFlags)
        then have "flags \<noteq> [] \<longleftrightarrow> list_ex (\<lambda>g. previewFeatures g \<noteq> []) (generators c)"
          by (simp only: first_flags_nonempty)
        with c Inr False Some assms(1) show ?thesis
          by (simp add: declares_preview_features_def)
      qed
    qed
  qed
qed

text \<open>
  C6. \<open>getFeatureFlags\<close> never rejects: it always resolves to a list. Without a schema
  path (\<open>null\<close> or the empty string) it resolves to the empty list and calls nothing;
  when reading the schema or parsing the configuration fails, it resolves to the empty
  list.
\<close>

theorem getFeatureFlags_never_raises:
  "(\<exists>flags. result (getFeatureFlags w schemaPath) = Inr flags)
   \<and> (schemaPath = None \<or> schemaPath = Some [] \<longrightarrow>
        getFeatureFlags w schemaPath = ([], Inr []))
   \<and> (\<forall>e. getSchema w = Inl e \<longrightarrow> result (getFeatureFlags w schemaPath) = Inr [])
   \<and> (\<forall>datamodel e. getSchema w = Inr datamodel \<and> getConfig w datamodel = Inl e \<longrightarrow>
          result (getFeatureFlags w schemaPath) = Inr [])"
  by (auto simp add: getFeatureFlags_def result_await result_try_catch returns_def
      split: option.splits sum.splits)

theorem getFeatureFlags_never_raises_witness:
  "getSchema no_schema_world = Inl (Error ''ENOENT'') \<and>
   result (getFeatureFlags no_schema_world (Some ''prisma/schema.prisma'')) = Inr [] \<and>
   getFeatureFlags demo_world None = ([], Inr [])"
  using getFeatureFlags_never_raises [of no_schema_world "Some ''prisma/schema.prisma''"]
    getFeatureFlags_never_raises [of demo_world None]
  by (simp add: no_schema_world_def)

text \<open>
  C7. With a schema path and a configuration that loads, \<open>getFeatureFlags\<close> resolves to
  the preview features of the first generator, in the order of the configuration, whose
  list is not empty, and to the empty list when every generator has an empty list. The
  lists of later generators are not added.
\<close>

theorem getFeatureFlags_first_generator:
  assumes "sp \<noteq> []" and "getSchema w = Inr datamodel" and "getConfig w datamodel = Inr c"
  shows "result (getFeatureFlags w (Some sp)) =
           Inr (case find (\<lambda>g. previewFeatures g \<noteq> []) (generators c) of
                  Some g \<Rightarrow> previewFeatures g
                | None \<Rightarrow> [])
         \<and> (\<forall>before g after.
               generators c = before @ g # after \<and>
               (\<forall>b \<in> set before. previewFeatures b = []) \<and> previewFeatures g \<noteq> [] \<longrightarrow>
               result (getFeatureFlags w (Some sp)) = Inr (previewFeatures g))
         \<and> ((\<forall>g \<in> set (generators c). previewFeatures g = []) \<longrightarrow>
               result (getFeatureFlags w (Some sp)) = Inr [])"
proof -
  have r: "result (getFeatureFlags w (Some sp)) =
           Inr (case find (\<lambda>g. previewFeatures g \<noteq> []) (generators c) of
                  Some g \<Rightarrow> previewFeatures g
                | None \<Rightarrow> [])"
    using assms
    by (simp add: getFeatureFlags_def result_await result_try_catch split: option.splits)
  have n: "find P xs = None" if "\<forall>x \<in> set xs. \<not> P x" for P :: "generator \<Rightarrow> bool" and xs
    using that by (simp add: find_None_iff)
  show ?thesis
    using r by (auto simp add: find_first n)
qed

theorem getFeatureFlags_first_generator_witness:
  "''prisma/schema.prisma'' \<noteq> [] \<and>
   getSchema demo_world = Inr ''generator client {}'' \<and>
   getConfig demo_world ''generator client {}'' = Inr demo_config \<and>
   result (getFeatureFlags demo_world (Some ''prisma/schema.prisma'')) = Inr [''a'', ''b''] \<and>
   concat (map previewFeatures (generators demo_config)) = [''a'', ''b'', ''c'']"
proof -
  have s: "getSchema demo_world = Inr ''generator client {}''"
    and c: "getConfig demo_world ''generator client {}'' = Inr demo_config"
    by (simp_all add: demo_world_def)
  have p: "''prisma/schema.prisma'' \<noteq> []"
    by simp
  show ?thesis
    using s c getFeatureFlags_first_generator [OF p s c]
    by (simp add: demo_config_def)
qed

section \<open>The report\<close>

lemma parse_rows_Inr:
  "result (parse_rows w) = Inr rows \<longleftrightarrow>
     (\<exists>platform ie me qe fe cv sp flags.
        getPlatform w = Inr platform \<and>
        result (resolveEngine w introspectionEngine) = Inr ie \<and>
        result (resolveEngine w migrationEngine) = Inr me \<and>
        result (resolveEngine w (getCliQueryEngineType w)) = Inr qe \<and>
        result (resolveEngine w prismaFmt) = Inr fe \<and>
        getInstalledPrismaClientVersion w = Inr cv \<and>
        getSchemaPath w = Inr sp \<and>
        result (getFeatureFlags w sp) = Inr flags \<and>
        rows = fixed_rows w platform cv qe me ie fe @ flag_rows flags)"
  unfolding parse_rows_def Let_def result_await_Inr_iff
  by (auto simp add: fixed_rows_def flag_rows_def)

lemma parse_rows_Inl:
  assumes "role \<in> set (resolved_roles w)" and "result (resolveEngine w role) = Inl e"
  shows "\<exists>e'. result (parse_rows w) = Inl e' \<and>
           (getPlatform w = Inl e' \<or>
            (\<exists>r \<in> set (resolved_roles w). result (resolveEngine w r) = Inl e'))"
proof (cases "result (parse_rows w)")
  case (Inl e')
  then show ?thesis
    unfolding parse_rows_def Let_def result_await
    using assms by (auto simp add: resolved_roles_def split: sum.splits)
next
  case (Inr rows)
  then show ?thesis
    using assms by (auto simp add: parse_rows_Inr resolved_roles_def)
qed

lemma result_parse_rows_demo: "result (parse_rows demo_world) = Inr demo_rows"
proof -
  have e: "result (resolveEngine demo_world introspectionEngine) =
        Inr \<lparr>path = ''/usr/local/bin/introspection-engine'', version = ''4.0.0'',
             fromEnvVar = None\<rparr>"
      "result (resolveEngine demo_world migrationEngine) =
        Inr \<lparr>path = ''/usr/local/bin/migration-engine'', version = ''4.0.0'',
             fromEnvVar = None\<rparr>"
      "result (resolveEngine demo_world queryEngine) =
        Inr \<lparr>path = ''/opt/custom/qe'', version = ''3.1.0'',
             fromEnvVar = Some ''PRISMA_QUERY_ENGINE_BINARY''\<rparr>"
      "result (resolveEngine demo_world prismaFmt) =
        Inr \<lparr>path = ''/usr/local/bin/prisma-fmt'', version = ''4.0.0'', fromEnvVar = None\<rparr>"
    by (simp_all add: result_resolveEngine demo_world_def demo_env_def probe_def
        default_engine_def)
  have q: "getCliQueryEngineType demo_world = queryEngine"
    by (simp add: demo_world_def)
  have f: "result (getFeatureFlags demo_world (Some ''prisma/schema.prisma'')) =
        Inr [''a'', ''b'']"
    by (simp add: result_getFeatureFlags demo_world_def demo_config_def)
  have p: "printEngineInfo demo_world
         \<lparr>path = ''/usr/local/bin/introspection-engine'', version = ''4.0.0'',
          fromEnvVar = None\<rparr> = ''4.0.0 (at introspection-engine)''"
      "printEngineInfo demo_world
         \<lparr>path = ''/usr/local/bin/migration-engine'', version = ''4.0.0'',
          fromEnvVar = None\<rparr> = ''4.0.0 (at migration-engine)''"
      "printEngineInfo demo_world
         \<lparr>path = ''/opt/custom/qe'', version = ''3.1.0'',
          fromEnvVar = Some ''PRISMA_QUERY_ENGINE_BINARY''\<rparr> =
         ''3.1.0 (at /opt/custom/qe, resolved by PRISMA_QUERY_ENGINE_BINARY)''"
      "printEngineInfo demo_world
         \<lparr>path = ''/usr/local/bin/prisma-fmt'', version = ''4.0.0'', fromEnvVar = None\<rparr> =
         ''4.0.0 (at prisma-fmt)''"
    by (simp_all add: printEngineInfo_def demo_world_def)
  have o: "getPlatform demo_world = Inr ''debian-openssl-1.1.x''"
      "getInstalledPrismaClientVersion demo_world = Inr None"
      "getSchemaPath demo_world = Inr (Some ''prisma/schema.prisma'')"
      "pkg demo_world =
         \<lparr>pkg_name = ''prisma'', pkg_version = ''3.1.0'',
          dep_engines = ''3.1.0-24.c22652b7e418506fab23052d569b85d3aec4883f'',
          dev_studio_server = ''0.423.0''\<rparr>"
    by (simp_all add: demo_world_def)
  show ?thesis
    unfolding parse_rows_Inr
    by (simp add: e q f p o pop_def fixed_rows_def flag_rows_def demo_rows_def)
qed

lemma declares_preview_features_demo: "declares_preview_features demo_world"
  by (simp add: declares_preview_features_def demo_world_def demo_config_def)

text \<open>
  C3. When \<open>parse\<close> is past the arguments and the environment file, and the version
  probe that \<open>resolveEngine\<close> makes for one of the four roles fails, \<open>resolveEngine\<close>
  rejects with that failure and \<open>parse\<close> rejects: it resolves to no report. The error
  of \<open>parse\<close> is the failure of \<open>getPlatform\<close> or of the resolution of one of the four
  roles, uncaught.
\<close>

theorem parse_aborts_on_probe_failure:
  assumes "arg w argv = Inr a" and "\<not> help_flag a" and "loadEnvFile w = Inr env'"
    and "role \<in> set (resolved_roles w)"
    and "GetVersion p role \<in> set (calls (resolveEngine (w\<lparr>env := env'\<rparr>) role))"
    and "getVersion w p role = Inl e"
  shows "result (resolveEngine (w\<lparr>env := env'\<rparr>) role) = Inl e
         \<and> (\<exists>e'. result (parse w argv) = Inl e' \<and>
               (getPlatform w = Inl e' \<or>
                (\<exists>r \<in> set (resolved_roles w).
                   result (resolveEngine (w\<lparr>env := env'\<rparr>) r) = Inl e')))"
proof -
  let ?w = "w\<lparr>env := env'\<rparr>"
  have f: "result (resolveEngine ?w role) = Inl e"
    using assms(5,6) resolveEngine_probe_fails [of p role ?w e] by simp
  have "role \<in> set (resolved_roles ?w)"
    using assms(4) by (simp add: resolved_roles_def)
  from parse_rows_Inl [OF this f]
  obtain e' where e': "result (parse_rows ?w) = Inl e'"
    "getPlatform ?w = Inl e' \<or>
     (\<exists>r \<in> set (resolved_roles ?w). result (resolveEngine ?w r) = Inl e')"
    by blast
  have "result (parse w argv) = Inl e'"
    using assms(1,2,3) e'(1) by (simp add: parse_def result_await)
  with e'(2) f show ?thesis
    by (auto simp add: resolved_roles_def)
qed

theorem parse_aborts_on_probe_failure_witness:
  "arg broken_world [] = Inr \<lparr>help_flag = False, json_flag = False\<rparr> \<and>
   loadEnvFile broken_world = Inr demo_env \<and>
   migrationEngine \<in> set (resolved_roles broken_world) \<and>
   GetVersion ''/usr/local/bin/migration-engine'' migrationEngine
     \<in> set (calls (resolveEngine (broken_world\<lparr>env := demo_env\<rparr>) migrationEngine)) \<and>
   getVersion broken_world ''/usr/local/bin/migration-engine'' migrationEngine =
     Inl (Error ''spawn ENOENT'') \<and>
   result (parse broken_world []) = Inl (Error ''spawn ENOENT'')"
proof -
  have a: "arg broken_world [] = Inr \<lparr>help_flag = False, json_flag = False\<rparr>"
    and h: "\<not> help_flag \<lparr>help_flag = False, json_flag = False\<rparr>"
    and l: "loadEnvFile broken_world = Inr demo_env"
    and r: "migrationEngine \<in> set (resolved_roles broken_world)"
    and g: "getVersion broken_world ''/usr/local/bin/migration-engine'' migrationEngine =
              Inl (Error ''spawn ENOENT'')"
    by (simp_all add: broken_world_def demo_world_def resolved_roles_def)
  have c: "GetVersion ''/usr/local/bin/migration-engine'' migrationEngine
     \<in> set (calls (resolveEngine (broken_world\<lparr>env := demo_env\<rparr>) migrationEngine))"
    by (simp add: resolveEngine_def calls_await broken_world_def demo_world_def demo_env_def)
  have i: "result (resolveEngine (broken_world\<lparr>env := demo_env\<rparr>) introspectionEngine) =
        Inr \<lparr>path = ''/usr/local/bin/introspection-engine'', version = ''4.0.0'',
             fromEnvVar = None\<rparr>"
    by (simp add: result_resolveEngine broken_world_def demo_world_def demo_env_def probe_def
        default_engine_def)
  have p: "getPlatform broken_world = Inr ''debian-openssl-1.1.x''"
    by (simp add: broken_world_def demo_world_def)
  from parse_aborts_on_probe_failure [OF a h l r c g]
  have m: "result (resolveEngine (broken_world\<lparr>env := demo_env\<rparr>) migrationEngine) =
        Inl (Error ''spawn ENOENT'')"
    by simp
  have "result (parse broken_world []) = Inl (Error ''spawn ENOENT'')"
    by (simp add: parse_def parse_rows_def Let_def result_await a l p i m)
  with a l r c g show ?thesis
    by simp
qed

section \<open>The renderer\<close>

lemma foldl_max_length:
  "foldl (\<lambda>acc curr. max acc (length (fst curr))) a rows =
     Max (set (a # map (\<lambda>row. length (fst row)) rows))"
proof (induction rows arbitrary: a)
  case Nil
  then show ?case by simp
next
  case (Cons r rows)
  have "Max (insert (max a (length (fst r))) (set (map (\<lambda>row. length (fst row)) rows))) =
        Max (insert a (insert (length (fst r)) (set (map (\<lambda>row. length (fst row)) rows))))"
    by (cases "set (map (\<lambda>row. length (fst row)) rows) = {}") (simp_all add: max.assoc)
  with Cons show ?case by simp
qed

lemma length_le_longest_label: "(l, v) \<in> set rows \<Longrightarrow> length l \<le> longest_label rows"
  unfolding longest_label_def by (rule Max_ge) force+

lemma longest_label_attained:
  assumes "rows \<noteq> []"
  shows "\<exists>(label, v) \<in> set rows. length label = longest_label rows"
proof -
  have "longest_label rows \<in> set (0 # map (\<lambda>row. length (fst row)) rows)"
    unfolding longest_label_def by (rule Max_in) simp_all
  then have "longest_label rows \<in> insert 0 ((\<lambda>row. length (fst row)) ` set rows)"
    by simp
  then consider "longest_label rows = 0"
    | "\<exists>row \<in> set rows. length (fst row) = longest_label rows"
    by (metis (no_types, lifting) insertE imageE)
  then show ?thesis
  proof cases
    case 1
    from assms obtain l v where m: "(l, v) \<in> set rows"
      by (cases rows) auto
    with 1 length_le_longest_label [OF m] show ?thesis
      by force
  next
    case 2
    then show ?thesis by force
  qed
qed

text \<open>
  C4, as the code has it. In text mode \<open>printTable\<close> pads every label at its end, the
  spaces after the label, to the width of the longest label of the row set, joins label
  and value with \<open>" : "\<close>, and joins the rows with line feeds. Every padded label has the
  width of the longest label, and a row set that is not empty has a label of that width.
\<close>

theorem printTable_text:
  "printTable w rows False =
     join ''\<newline>''
       (map (\<lambda>(label, v).
               label @ replicate (longest_label rows - length label) CHR '' '' @ '' : '' @ v)
          rows)
   \<and> (\<forall>(label, v) \<in> set rows.
         length (label @ replicate (longest_label rows - length label) CHR '' '') =
           longest_label rows)
   \<and> (rows \<noteq> [] \<longrightarrow> (\<exists>(label, v) \<in> set rows. length label = longest_label rows))"
proof -
  have "printTable w rows False =
     join ''\<newline>''
       (map (\<lambda>(label, v).
               label @ replicate (longest_label rows - length label) CHR '' '' @ '' : '' @ v)
          rows)"
    by (simp add: printTable_def foldl_max_length padEnd_def longest_label_def)
  moreover have "\<forall>(label, v) \<in> set rows.
         length (label @ replicate (longest_label rows - length label) CHR '' '') =
           longest_label rows"
    using length_le_longest_label by fastforce
  moreover have "rows \<noteq> [] \<longrightarrow>
      (\<exists>(label, v) \<in> set rows. length label = longest_label rows)"
    using longest_label_attained by (rule impI)
  ultimately show ?thesis
    by - (intro conjI; assumption)
qed

theorem printTable_text_witness:
  "[(''a'', ''1''), (''bbb'', ''2'')] \<noteq> [] \<and>
   longest_label [(''a'', ''1''), (''bbb'', ''2'')] = 3 \<and>
   printTable demo_world [(''a'', ''1''), (''bbb'', ''2'')] False = ''a   : 1\<newline>bbb : 2''"
  using printTable_text [of demo_world "[(''a'', ''1''), (''bbb'', ''2'')]"]
  by (simp add: longest_label_def)

text \<open>
  C4, as it is stated. Padding on the left puts the spaces before the label. On the
  rows \<open>["a", "1"]\<close> and \<open>["bbb", "2"]\<close> the left-padded table starts with two spaces;
  \<open>printTable\<close> puts them after the \<open>a\<close>.
\<close>

theorem printTable_not_left_padded:
  "printTable demo_world [(''a'', ''1''), (''bbb'', ''2'')] False = ''a   : 1\<newline>bbb : 2'' \<and>
   left_padded_table [(''a'', ''1''), (''bbb'', ''2'')] = ''  a : 1\<newline>bbb : 2'' \<and>
   printTable demo_world [(''a'', ''1''), (''bbb'', ''2'')] False \<noteq>
     left_padded_table [(''a'', ''1''), (''bbb'', ''2'')]"
  by (simp add: printTable_def padEnd_def left_padded_table_def longest_label_def)

lemma is_space_toLowerCase_char: "is_space (toLowerCase_char c) = is_space c"
  by (auto simp add: is_space_def toLowerCase_char_def Let_def)

lemma replace_spaces_no_space: "\<forall>c \<in> set s. \<not> is_space c \<Longrightarrow> replace_spaces s = s"
  by (induction s) auto

lemma replace_spaces_run:
  assumes "ws \<noteq> []" and "\<forall>c \<in> set ws. is_space c"
    and "a = [] \<or> \<not> is_space (last a)" and "b = [] \<or> \<not> is_space (hd b)"
  shows "replace_spaces (a @ ws @ b) = replace_spaces a @ ''-'' @ replace_spaces b"
  using assms(3)
proof (induction a rule: replace_spaces.induct)
  case 1
  obtain x xs where ws: "ws = x # xs"
    using assms(1) by (cases ws) auto
  have "dropWhile is_space (xs @ b) = b"
    using assms(2,4) ws by (cases b) (auto simp add: dropWhile_append)
  then show ?case
    using ws assms(2) by simp
next
  case (2 c cs)
  show ?case
  proof (cases "is_space c")
    case True
    with 2(3) have ne: "cs \<noteq> []" and l: "\<not> is_space (last cs)"
      by (auto split: if_splits)
    then have m: "last cs \<in> set cs"
      by simp
    have d: "dropWhile is_space (cs @ ws @ b) = dropWhile is_space cs @ ws @ b"
      using m l by (rule dropWhile_append1)
    have dn: "dropWhile is_space cs \<noteq> []"
      using m l by (auto simp add: dropWhile_eq_Nil_conv)
    have "last (dropWhile is_space cs) = last cs"
      using dn by (metis append_Nil2 last_appendR takeWhile_dropWhile_id)
    with 2(1) [OF True] l dn True d show ?thesis
      by simp
  next
    case False
    with 2(2) [OF False] 2(3) show ?thesis
      by (cases cs) auto
  qed
qed

lemma slugify_no_space: "\<forall>c \<in> set s. \<not> is_space c \<Longrightarrow> slugify s = toLowerCase s"
  by (simp add: slugify_def toLowerCase_def replace_spaces_no_space is_space_toLowerCase_char)

lemma slugify_run:
  assumes "ws \<noteq> []" and "\<forall>c \<in> set ws. is_space c"
    and "a = [] \<or> \<not> is_space (last a)" and "b = [] \<or> \<not> is_space (hd b)"
  shows "slugify (a @ ws @ b) = slugify a @ ''-'' @ slugify b"
proof -
  have "replace_spaces (toLowerCase a @ toLowerCase ws @ toLowerCase b) =
        replace_spaces (toLowerCase a) @ ''-'' @ replace_spaces (toLowerCase b)"
  proof (rule replace_spaces_run)
    show "toLowerCase ws \<noteq> []"
      using assms(1) by (simp add: toLowerCase_def)
    show "\<forall>c \<in> set (toLowerCase ws). is_space c"
      using assms(2) by (simp add: toLowerCase_def is_space_toLowerCase_char)
    show "toLowerCase a = [] \<or> \<not> is_space (last (toLowerCase a))"
      using assms(3) by (auto simp add: toLowerCase_def last_map is_space_toLowerCase_char)
    show "toLowerCase b = [] \<or> \<not> is_space (hd (toLowerCase b))"
      using assms(4) by (auto simp add: toLowerCase_def hd_map is_space_toLowerCase_char)
  qed
  then show ?thesis
    by (simp add: slugify_def toLowerCase_def)
qed

lemma reduce_rows_acc:
  assumes "\<forall>(l, v) \<in> set rows. slugify l \<noteq> ''__proto__''"
  shows "map_of (foldl (\<lambda>acc (name, v). assign acc (slugify name) v) acc rows) =
           map_of acc ++ map_of (rev (map (\<lambda>(l, v). (slugify l, v)) rows))
         \<and> fst ` set (foldl (\<lambda>acc (name, v). assign acc (slugify name) v) acc rows) =
           fst ` set acc \<union> slugify ` fst ` set rows
         \<and> (distinct (map fst acc) \<longrightarrow>
              distinct (map fst (foldl (\<lambda>acc (name, v). assign acc (slugify name) v) acc rows)))"
  using assms
proof (induction rows arbitrary: acc)
  case Nil
  then show ?case by simp
next
  case (Cons r rows)
  obtain l v where r: "r = (l, v)"
    by (cases r)
  have np: "slugify l \<noteq> ''__proto__''"
    using Cons.prems r by simp
  have rest: "\<forall>(l, v) \<in> set rows. slugify l \<noteq> ''__proto__''"
    using Cons.prems by simp
  note IH = Cons.IH [OF rest, of "AList.update (slugify l) v acc"]
  show ?case
    using IH np
    by (auto simp add: r assign_def AList.update_conv' AList.dom_update AList.distinct_update
        map_add_upd_left map_add_def fun_eq_iff split: option.splits)
qed

text \<open>
  C5. In JSON mode, for rows of which no label slugifies to \<open>__proto__\<close>, \<open>printTable\<close>
  gives \<open>JSON.stringify\<close> an object whose keys are the slugified labels, each once, and
  in which a key has the value of the last row with that key, unchanged. \<open>slugify\<close>
  lower-cases the label and turns every maximal run of white space into one hyphen; a
  label without white space is only lower-cased.
\<close>

theorem printTable_json:
  assumes "\<forall>(label, v) \<in> set rows. slugify label \<noteq> ''__proto__''"
  shows "printTable w rows True = JSON_stringify w (reduce_rows rows)
         \<and> fst ` set (reduce_rows rows) = slugify ` fst ` set rows
         \<and> distinct (map fst (reduce_rows rows))
         \<and> map_of (reduce_rows rows) = map_of (rev (map (\<lambda>(label, v). (slugify label, v)) rows))
         \<and> (\<forall>before label v after.
               rows = before @ (label, v) # after \<and>
               (\<forall>(label', v') \<in> set after. slugify label' \<noteq> slugify label) \<longrightarrow>
               map_of (reduce_rows rows) (slugify label) = Some v)
         \<and> (\<forall>a ws b.
               ws \<noteq> [] \<and> (\<forall>c \<in> set ws. is_space c) \<and>
               (a = [] \<or> \<not> is_space (last a)) \<and> (b = [] \<or> \<not> is_space (hd b)) \<longrightarrow>
               slugify (a @ ws @ b) = slugify a @ ''-'' @ slugify b)
         \<and> (\<forall>s. (\<forall>c \<in> set s. \<not> is_space c) \<longrightarrow> slugify s = toLowerCase s)"
proof -
  note acc = reduce_rows_acc [OF assms, of "[]", folded reduce_rows_def]
  have m: "map_of (reduce_rows rows) =
             map_of (rev (map (\<lambda>(label, v). (slugify label, v)) rows))"
    using acc by simp
  have last_wins: "map_of (reduce_rows rows) (slugify label) = Some v"
    if "rows = before @ (label, v) # after"
      and "\<forall>(label', v') \<in> set after. slugify label' \<noteq> slugify label"
    for before label v after
  proof -
    have "map_of (rev (map (\<lambda>(label, v). (slugify label, v)) after)) (slugify label) = None"
      using that(2) by (force simp add: map_of_eq_None_iff)
    moreover have "map_of (reduce_rows rows) (slugify label) =
        map_of (rev (map (\<lambda>(label, v). (slugify label, v)) rows)) (slugify label)"
      by (simp add: m)
    ultimately show ?thesis
      by (simp add: that(1) map_add_def)
  qed
  have keys: "printTable w rows True = JSON_stringify w (reduce_rows rows)
         \<and> fst ` set (reduce_rows rows) = slugify ` fst ` set rows
         \<and> distinct (map fst (reduce_rows rows))"
    using acc by (simp add: printTable_def)
  have lw: "\<forall>before label v after.
               rows = before @ (label, v) # after \<and>
               (\<forall>(label', v') \<in> set after. slugify label' \<noteq> slugify label) \<longrightarrow>
               map_of (reduce_rows rows) (slugify label) = Some v"
    using last_wins by (intro allI impI) (elim conjE)
  have run: "\<forall>a ws b.
               ws \<noteq> [] \<and> (\<forall>c \<in> set ws. is_space c) \<and>
               (a = [] \<or> \<not> is_space (last a)) \<and> (b = [] \<or> \<not> is_space (hd b)) \<longrightarrow>
               slugify (a @ ws @ b) = slugify a @ ''-'' @ slugify b"
    by (intro allI impI, elim conjE, rule slugify_run)
  have plain: "\<forall>s. (\<forall>c \<in> set s. \<not> is_space c) \<longrightarrow> slugify s = toLowerCase s"
    by (intro allI impI, rule slugify_no_space)
  from keys m lw run plain show ?thesis
    by - (elim conjE, intro conjI; assumption)
qed

theorem printTable_json_witness:
  "slugify ''Tool'' = ''tool'' \<and>
   slugify ''Query Engine (Binary)'' = ''query-engine-(binary)'' \<and>
   printTable demo_world
     [(''Tool'', ''1.2.3''), (''Query Engine (Binary)'', ''4.0.0 (at ./qe)'')] True =
     ''tool=1.2.3;query-engine-(binary)=4.0.0 (at ./qe);'' \<and>
   reduce_rows [(''Tool'', ''1.2.3''), (''Query Engine (Binary)'', ''4.0.0 (at ./qe)'')] =
     [(''tool'', ''1.2.3''), (''query-engine-(binary)'', ''4.0.0 (at ./qe)'')] \<and>
   reduce_rows [(''A b'', ''1''), (''a  B'', ''2'')] = [(''a-b'', ''2'')]"
proof -
  have s: "slugify ''Tool'' = ''tool''"
    "slugify ''Query Engine (Binary)'' = ''query-engine-(binary)''"
    "slugify ''A b'' = ''a-b''" "slugify ''a  B'' = ''a-b''"
    by code_simp+
  have h: "\<forall>(label, v) \<in> set [(''Tool'', ''1.2.3''), (''Query Engine (Binary)'', ''4.0.0 (at ./qe)'')].
      slugify label \<noteq> ''__proto__''"
    by (simp add: s)
  show ?thesis
    using printTable_json [OF h, of demo_world]
    by (simp add: s reduce_rows_def assign_def demo_world_def)
qed

section \<open>The report, rendered\<close>

lemma fixed_rows_env:
  "fixed_rows (w\<lparr>env := env'\<rparr>) platform cv qe me ie fe = fixed_rows w platform cv qe me ie fe"
  by (simp add: fixed_rows_def printEngineInfo_def)

lemma getFeatureFlags_env: "getFeatureFlags (w\<lparr>env := env'\<rparr>) sp = getFeatureFlags w sp"
  by (simp add: getFeatureFlags_def split: option.splits)

lemma result_parse_Inr:
  assumes "arg w argv = Inr a" and "\<not> help_flag a" and "loadEnvFile w = Inr env'"
  shows "result (parse w argv) = Inr out \<longleftrightarrow>
     (\<exists>platform ie me qe fe cv sp flags.
        getPlatform w = Inr platform \<and>
        result (resolveEngine (w\<lparr>env := env'\<rparr>) introspectionEngine) = Inr ie \<and>
        result (resolveEngine (w\<lparr>env := env'\<rparr>) migrationEngine) = Inr me \<and>
        result (resolveEngine (w\<lparr>env := env'\<rparr>) (getCliQueryEngineType w)) = Inr qe \<and>
        result (resolveEngine (w\<lparr>env := env'\<rparr>) prismaFmt) = Inr fe \<and>
        getInstalledPrismaClientVersion w = Inr cv \<and>
        getSchemaPath w = Inr sp \<and>
        result (getFeatureFlags w sp) = Inr flags \<and>
        out = Text (printTable w (fixed_rows w platform cv qe me ie fe @ flag_rows flags)
                      (json_flag a)))"
proof -
  have "result (parse w argv) = Inr out \<longleftrightarrow>
        (\<exists>rows. result (parse_rows (w\<lparr>env := env'\<rparr>)) = Inr rows \<and>
                out = Text (printTable w rows (json_flag a)))"
    using assms by (auto simp add: parse_def result_await_Inr_iff)
  moreover have "result (parse_rows (w\<lparr>env := env'\<rparr>)) = Inr rows \<longleftrightarrow>
     (\<exists>platform ie me qe fe cv sp flags.
        getPlatform w = Inr platform \<and>
        result (resolveEngine (w\<lparr>env := env'\<rparr>) introspectionEngine) = Inr ie \<and>
        result (resolveEngine (w\<lparr>env := env'\<rparr>) migrationEngine) = Inr me \<and>
        result (resolveEngine (w\<lparr>env := env'\<rparr>) (getCliQueryEngineType w)) = Inr qe \<and>
        result (resolveEngine (w\<lparr>env := env'\<rparr>) prismaFmt) = Inr fe \<and>
        getInstalledPrismaClientVersion w = Inr cv \<and>
        getSchemaPath w = Inr sp \<and>
        result (getFeatureFlags w sp) = Inr flags \<and>
        rows = fixed_rows w platform cv qe me ie fe @ flag_rows flags)" for rows
    by (simp add: parse_rows_Inr fixed_rows_env getFeatureFlags_env)
  ultimately show ?thesis
    by (simp only:) blast
qed

lemma printTable_False:
  "printTable w rows False =
     join ''\<newline>''
       (map (\<lambda>(label, v).
               label @ replicate (longest_label rows - length label) CHR '' '' @ '' : '' @ v)
          rows)"
  by (simp add: printTable_def foldl_max_length padEnd_def longest_label_def)

lemma update_new_key: "k \<notin> fst ` set al \<Longrightarrow> AList.update k v al = al @ [(k, v)]"
  by (induction al) auto

lemma reduce_rows_distinct_acc:
  assumes "distinct (map fst acc @ map (\<lambda>row. slugify (fst row)) rows)"
    and "\<forall>(l, v) \<in> set rows. slugify l \<noteq> ''__proto__''"
  shows "foldl (\<lambda>acc (name, v). assign acc (slugify name) v) acc rows =
           acc @ map (\<lambda>(l, v). (slugify l, v)) rows"
  using assms
proof (induction rows arbitrary: acc)
  case Nil
  then show ?case by simp
next
  case (Cons r rows)
  obtain l v where r: "r = (l, v)"
    by (cases r)
  have new: "slugify l \<notin> fst ` set acc"
    using Cons.prems(1) r by auto
  have step: "assign acc (slugify l) v = acc @ [(slugify l, v)]"
    using Cons.prems(2) r new by (simp add: assign_def update_new_key)
  have d: "distinct (map fst (acc @ [(slugify l, v)]) @ map (\<lambda>row. slugify (fst row)) rows)"
    using Cons.prems(1) r by auto
  have p: "\<forall>(l, v) \<in> set rows. slugify l \<noteq> ''__proto__''"
    using Cons.prems(2) by simp
  show ?case
    using Cons.IH [OF d p] by (simp add: r step)
qed

lemma reduce_rows_distinct:
  assumes "distinct (map (\<lambda>row. slugify (fst row)) rows)"
    and "\<forall>(l, v) \<in> set rows. slugify l \<noteq> ''__proto__''"
  shows "reduce_rows rows = map (\<lambda>(l, v). (slugify l, v)) rows"
  using reduce_rows_distinct_acc [of "[]" rows] assms by (simp add: reduce_rows_def)

lemma preview_label_in_fixed_rows:
  assumes "pkg_name (pkg w) \<noteq> ''Preview Features''"
  shows "(''Preview Features'', v) \<notin> set (fixed_rows w platform cv qe me ie fe)"
  using assms by (simp add: fixed_rows_def)

lemma demo_world_env: "demo_world\<lparr>env := demo_env\<rparr> = demo_world"
  by (simp add: demo_world_def)

lemma demo_args:
  "arg demo_world [] = Inr \<lparr>help_flag = False, json_flag = False\<rparr>"
  "arg demo_world [''--json''] = Inr \<lparr>help_flag = False, json_flag = True\<rparr>"
  "loadEnvFile demo_world = Inr demo_env"
  by (simp_all add: demo_world_def)

lemma printTable_demo_rows: "printTable demo_world demo_rows False = demo_table"
  by (simp add: printTable_def padEnd_def demo_rows_def demo_table_def demo_fixed_table_def)

lemma slugify_demo_labels:
  "slugify ''prisma'' = ''prisma''"
  "slugify ''@prisma/client'' = ''@prisma/client''"
  "slugify ''Current platform'' = ''current-platform''"
  "slugify ''Query Engine (Binary)'' = ''query-engine-(binary)''"
  "slugify ''Migration Engine'' = ''migration-engine''"
  "slugify ''Introspection Engine'' = ''introspection-engine''"
  "slugify ''Format Engine'' = ''format-engine''"
  "slugify ''Default Engines Hash'' = ''default-engines-hash''"
  "slugify ''Studio'' = ''studio''"
  "slugify ''Preview Features'' = ''preview-features''"
  by code_simp+

lemma reduce_rows_demo: "reduce_rows demo_rows = demo_object"
  by (simp add: reduce_rows_def demo_rows_def demo_object_def assign_def slugify_demo_labels)

lemma result_parse_demo: "result (parse demo_world []) = Inr (Text demo_table)"
  by (simp add: parse_def demo_args result_await demo_world_env result_parse_rows_demo
      printTable_demo_rows)

lemma result_parse_demo_json:
  "result (parse demo_world [''--json'']) =
     Inr (Text (JSON_stringify demo_world demo_object))"
  by (simp add: parse_def demo_args result_await demo_world_env result_parse_rows_demo
      printTable_def reduce_rows_demo)

lemma resolveEngine_no_config:
  "result (resolveEngine (w\<lparr>getSchemaPath := sp\<rparr>) role) = result (resolveEngine w role)"
proof -
  have p: "probe (w\<lparr>getSchemaPath := sp\<rparr>) role p tag = probe w role p tag" for p tag
    by (simp add: probe_def)
  have d: "default_engine (w\<lparr>getSchemaPath := sp\<rparr>) role = default_engine w role"
    by (simp add: default_engine_def p cong: sum.case_cong)
  show ?thesis
    by (simp add: result_resolveEngine p d cong: option.case_cong if_cong)
qed

lemma printEngineInfo_no_config:
  "printEngineInfo (w\<lparr>getSchemaPath := sp\<rparr>) info = printEngineInfo w info"
  by (simp add: printEngineInfo_def)

lemma result_parse_rows_no_config: "result (parse_rows no_config_world) = Inr demo_fixed_rows"
proof -
  from result_parse_rows_demo obtain platform ie me qe fe cv sp flags where
    d: "getPlatform demo_world = Inr platform"
      "result (resolveEngine demo_world introspectionEngine) = Inr ie"
      "result (resolveEngine demo_world migrationEngine) = Inr me"
      "result (resolveEngine demo_world (getCliQueryEngineType demo_world)) = Inr qe"
      "result (resolveEngine demo_world prismaFmt) = Inr fe"
      "getInstalledPrismaClientVersion demo_world = Inr cv"
      "demo_rows = fixed_rows demo_world platform cv qe me ie fe @ flag_rows flags"
    unfolding parse_rows_Inr by blast
  have "length (fixed_rows demo_world platform cv qe me ie fe) = 9"
    by (simp add: fixed_rows_def)
  with d(7) have "fixed_rows demo_world platform cv qe me ie fe = take 9 demo_rows"
    by (metis append_eq_conv_conj)
  then have f: "fixed_rows demo_world platform cv qe me ie fe = demo_fixed_rows"
    by (simp add: demo_rows_def demo_fixed_rows_def)
  have g: "fixed_rows no_config_world platform cv qe me ie fe =
           fixed_rows demo_world platform cv qe me ie fe"
    by (simp add: fixed_rows_def no_config_world_def printEngineInfo_no_config)
  show ?thesis
    unfolding parse_rows_Inr
    using d(1-6) f g
    by (simp add: no_config_world_def resolveEngine_no_config result_getFeatureFlags
        flag_rows_def)
qed

lemma no_config_args:
  "arg no_config_world [] = Inr \<lparr>help_flag = False, json_flag = False\<rparr>"
  "loadEnvFile no_config_world = Inr demo_env"
  "no_config_world\<lparr>env := demo_env\<rparr> = no_config_world"
  "\<not> declares_preview_features no_config_world"
  by (simp_all add: no_config_world_def demo_world_def declares_preview_features_def)

lemma printTable_demo_fixed_rows:
  "printTable no_config_world demo_fixed_rows False = demo_fixed_table"
  by (simp add: printTable_def padEnd_def demo_fixed_rows_def demo_fixed_table_def)

lemma result_parse_no_config: "result (parse no_config_world []) = Inr (Text demo_fixed_table)"
  by (simp add: parse_def no_config_args result_await result_parse_rows_no_config
      printTable_demo_fixed_rows)

text \<open>
  C8. When \<open>parse\<close> resolves to a report, the report is the rendering of the nine rows
  of lines 84 to 97, each with the value its collaborator gave, followed by one more
  row, \<open>Preview Features\<close>, exactly when a schema path is found, the configuration
  loads and one of its generators has a list of preview features that is not empty.
  The value of that row is the list \<open>getFeatureFlags\<close> returns, joined with a comma and
  a space. Otherwise the report is the rendering of the nine rows alone, and, the
  package not being named \<open>Preview Features\<close>, no row has that label.
\<close>

theorem parse_preview_features_row:
  assumes "arg w argv = Inr a" and "\<not> help_flag a" and "loadEnvFile w = Inr env'"
    and "result (parse w argv) = Inr out"
  shows "\<exists>platform ie me qe fe cv sp flags.
           getPlatform w = Inr platform \<and>
           result (resolveEngine (w\<lparr>env := env'\<rparr>) introspectionEngine) = Inr ie \<and>
           result (resolveEngine (w\<lparr>env := env'\<rparr>) migrationEngine) = Inr me \<and>
           result (resolveEngine (w\<lparr>env := env'\<rparr>) (getCliQueryEngineType w)) = Inr qe \<and>
           result (resolveEngine (w\<lparr>env := env'\<rparr>) prismaFmt) = Inr fe \<and>
           getInstalledPrismaClientVersion w = Inr cv \<and>
           getSchemaPath w = Inr sp \<and>
           result (getFeatureFlags w sp) = Inr flags \<and>
           (flags \<noteq> [] \<longleftrightarrow> declares_preview_features w) \<and>
           out = Text (printTable w
                   (fixed_rows w platform cv qe me ie fe @
                    (if declares_preview_features w
                     then [(''Preview Features'', join '', '' flags)] else []))
                   (json_flag a)) \<and>
           (\<not> declares_preview_features w \<longrightarrow>
              out = Text (printTable w (fixed_rows w platform cv qe me ie fe) (json_flag a))) \<and>
           (pkg_name (pkg w) \<noteq> ''Preview Features'' \<longrightarrow>
              ((\<exists>v. (''Preview Features'', v) \<in>
                     set (fixed_rows w platform cv qe me ie fe @
                          (if declares_preview_features w
                           then [(''Preview Features'', join '', '' flags)] else [])))
               \<longleftrightarrow> declares_preview_features w))"
proof -
  from assms(4) obtain platform ie me qe fe cv sp flags where
    c: "getPlatform w = Inr platform"
      "result (resolveEngine (w\<lparr>env := env'\<rparr>) introspectionEngine) = Inr ie"
      "result (resolveEngine (w\<lparr>env := env'\<rparr>) migrationEngine) = Inr me"
      "result (resolveEngine (w\<lparr>env := env'\<rparr>) (getCliQueryEngineType w)) = Inr qe"
      "result (resolveEngine (w\<lparr>env := env'\<rparr>) prismaFmt) = Inr fe"
      "getInstalledPrismaClientVersion w = Inr cv"
    and sp: "getSchemaPath w = Inr sp" and fl: "result (getFeatureFlags w sp) = Inr flags"
    and out: "out = Text (printTable w (fixed_rows w platform cv qe me ie fe @ flag_rows flags)
                            (json_flag a))"
    unfolding result_parse_Inr [OF assms(1,2,3)] by blast
  have iff: "flags \<noteq> [] \<longleftrightarrow> declares_preview_features w"
    by (rule getFeatureFlags_nonempty_iff [OF sp fl])
  have fr: "flag_rows flags =
      (if declares_preview_features w then [(''Preview Features'', join '', '' flags)] else [])"
    using iff by (auto simp add: flag_rows_def)
  have o: "out = Text (printTable w
                   (fixed_rows w platform cv qe me ie fe @
                    (if declares_preview_features w
                     then [(''Preview Features'', join '', '' flags)] else []))
                   (json_flag a))"
    using out fr by simp
  have absent: "\<not> declares_preview_features w \<longrightarrow>
      out = Text (printTable w (fixed_rows w platform cv qe me ie fe) (json_flag a))"
    using o by simp
  have label: "pkg_name (pkg w) \<noteq> ''Preview Features'' \<longrightarrow>
      ((\<exists>v. (''Preview Features'', v) \<in>
             set (fixed_rows w platform cv qe me ie fe @
                  (if declares_preview_features w
                   then [(''Preview Features'', join '', '' flags)] else [])))
       \<longleftrightarrow> declares_preview_features w)"
    using preview_label_in_fixed_rows [of w _ platform cv qe me ie fe] by auto
  from c sp fl iff o absent label show ?thesis
    by blast
qed

theorem parse_preview_features_row_witness:
  "result (parse demo_world []) = Inr (Text demo_table) \<and>
   declares_preview_features demo_world \<and>
   demo_table = demo_fixed_table @ ''\<newline>Preview Features      : a, b'' \<and>
   result (parse no_config_world []) = Inr (Text demo_fixed_table)"
proof -
  have h: "\<not> help_flag \<lparr>help_flag = False, json_flag = False\<rparr>"
    by simp
  show ?thesis
    using parse_preview_features_row [OF demo_args(1) h demo_args(3) result_parse_demo]
      parse_preview_features_row [OF no_config_args(1) h no_config_args(2)
        result_parse_no_config]
      result_parse_demo result_parse_no_config declares_preview_features_demo
    by (simp add: demo_table_def)
qed

text \<open>
  C9. When \<open>parse\<close> resolves to a report, the report is the rendering of the rows in
  this order: the name of the package, \<open>@prisma/client\<close> and \<open>Current platform\<close>;
  then the engines, \<open>Query Engine\<close>, \<open>Migration Engine\<close>, \<open>Introspection Engine\<close> and
  \<open>Format Engine\<close>, each with the value of the engine resolved for its role; then
  \<open>Default Engines Hash\<close> and \<open>Studio\<close>; then \<open>Preview Features\<close>, last, when it is
  there. In text mode the lines are the rows in that order. In JSON mode the object
  given to \<open>JSON.stringify\<close> has the rows as its properties, inserted in that order,
  when the slugified labels differ and none is \<open>__proto__\<close>. The report is a function
  of the world, and nothing sorts the rows.
\<close>

theorem parse_report_order:
  assumes "arg w argv = Inr a" and "\<not> help_flag a" and "loadEnvFile w = Inr env'"
    and "result (parse w argv) = Inr out"
  shows "\<exists>platform ie me qe fe cv sp flags rows.
           getPlatform w = Inr platform \<and>
           result (resolveEngine (w\<lparr>env := env'\<rparr>) introspectionEngine) = Inr ie \<and>
           result (resolveEngine (w\<lparr>env := env'\<rparr>) migrationEngine) = Inr me \<and>
           result (resolveEngine (w\<lparr>env := env'\<rparr>) (getCliQueryEngineType w)) = Inr qe \<and>
           result (resolveEngine (w\<lparr>env := env'\<rparr>) prismaFmt) = Inr fe \<and>
           getInstalledPrismaClientVersion w = Inr cv \<and>
           getSchemaPath w = Inr sp \<and>
           result (getFeatureFlags w sp) = Inr flags \<and>
           rows = fixed_rows w platform cv qe me ie fe @ flag_rows flags \<and>
           map fst rows =
             [pkg_name (pkg w), ''@prisma/client'', ''Current platform''] @
             [''Query Engine'' @
                (if getCliQueryEngineType w = libqueryEngine
                 then '' (Node-API)'' else '' (Binary)''),
              ''Migration Engine'', ''Introspection Engine'', ''Format Engine''] @
             [''Default Engines Hash'', ''Studio''] @
             (if declares_preview_features w then [''Preview Features''] else []) \<and>
           map snd (take 4 (drop 3 rows)) = map (printEngineInfo w) [qe, me, ie, fe] \<and>
           out = Text (printTable w rows (json_flag a)) \<and>
           (\<not> json_flag a \<longrightarrow>
              out = Text (join ''\<newline>''
                      (map (\<lambda>(label, v).
                              label @
                              replicate (longest_label rows - length label) CHR '' '' @
                              '' : '' @ v)
                         rows))) \<and>
           (json_flag a \<longrightarrow> out = Text (JSON_stringify w (reduce_rows rows))) \<and>
           (distinct (map (\<lambda>row. slugify (fst row)) rows) \<and>
            (\<forall>(label, v) \<in> set rows. slugify label \<noteq> ''__proto__'') \<longrightarrow>
              reduce_rows rows = map (\<lambda>(label, v). (slugify label, v)) rows)"
proof -
  from assms(4) obtain platform ie me qe fe cv sp flags where
    c: "getPlatform w = Inr platform"
      "result (resolveEngine (w\<lparr>env := env'\<rparr>) introspectionEngine) = Inr ie"
      "result (resolveEngine (w\<lparr>env := env'\<rparr>) migrationEngine) = Inr me"
      "result (resolveEngine (w\<lparr>env := env'\<rparr>) (getCliQueryEngineType w)) = Inr qe"
      "result (resolveEngine (w\<lparr>env := env'\<rparr>) prismaFmt) = Inr fe"
      "getInstalledPrismaClientVersion w = Inr cv"
    and sp: "getSchemaPath w = Inr sp" and fl: "result (getFeatureFlags w sp) = Inr flags"
    and out: "out = Text (printTable w (fixed_rows w platform cv qe me ie fe @ flag_rows flags)
                            (json_flag a))"
    unfolding result_parse_Inr [OF assms(1,2,3)] by blast
  define rows where "rows = fixed_rows w platform cv qe me ie fe @ flag_rows flags"
  have iff: "flags \<noteq> [] \<longleftrightarrow> declares_preview_features w"
    by (rule getFeatureFlags_nonempty_iff [OF sp fl])
  have labels: "map fst rows =
             [pkg_name (pkg w), ''@prisma/client'', ''Current platform''] @
             [''Query Engine'' @
                (if getCliQueryEngineType w = libqueryEngine
                 then '' (Node-API)'' else '' (Binary)''),
              ''Migration Engine'', ''Introspection Engine'', ''Format Engine''] @
             [''Default Engines Hash'', ''Studio''] @
             (if declares_preview_features w then [''Preview Features''] else [])"
    using iff by (auto simp add: rows_def fixed_rows_def flag_rows_def)
  have engines: "map snd (take 4 (drop 3 rows)) = map (printEngineInfo w) [qe, me, ie, fe]"
    by (simp add: rows_def fixed_rows_def)
  have o: "out = Text (printTable w rows (json_flag a))"
    using out by (simp add: rows_def)
  have text_mode: "\<not> json_flag a \<longrightarrow>
              out = Text (join ''\<newline>''
                      (map (\<lambda>(label, v).
                              label @
                              replicate (longest_label rows - length label) CHR '' '' @
                              '' : '' @ v)
                         rows))"
    using o printTable_False [of w rows] by simp
  have json_mode: "json_flag a \<longrightarrow> out = Text (JSON_stringify w (reduce_rows rows))"
    using o by (simp add: printTable_def)
  have inserted: "distinct (map (\<lambda>row. slugify (fst row)) rows) \<and>
            (\<forall>(label, v) \<in> set rows. slugify label \<noteq> ''__proto__'') \<longrightarrow>
              reduce_rows rows = map (\<lambda>(label, v). (slugify label, v)) rows"
    using reduce_rows_distinct [of rows] by blast
  from c sp fl rows_def labels engines o text_mode json_mode inserted show ?thesis
    by blast
qed

theorem parse_report_order_witness:
  "result (parse demo_world []) = Inr (Text demo_table) \<and>
   result (parse demo_world [''--json'']) =
     Inr (Text (JSON_stringify demo_world demo_object)) \<and>
   map fst demo_object =
     [''prisma'', ''@prisma/client'', ''current-platform'', ''query-engine-(binary)'',
      ''migration-engine'', ''introspection-engine'', ''format-engine'',
      ''default-engines-hash'', ''studio'', ''preview-features'']"
proof -
  have h: "\<not> help_flag \<lparr>help_flag = False, json_flag = False\<rparr>"
    "\<not> help_flag \<lparr>help_flag = False, json_flag = True\<rparr>"
    by simp_all
  show ?thesis
    using parse_report_order [OF demo_args(1) h(1) demo_args(3) result_parse_demo]
      parse_report_order [OF demo_args(2) h(2) demo_args(3) result_parse_demo_json]
      result_parse_demo result_parse_demo_json
    by (simp add: demo_object_def)
qed

end
